theory Spec2Isabelle
  imports Main "HOL-Library.Word"
begin

unbundle bit_operations_syntax

section \<open>The CMSIS-DAP controller of orbtrace (nmigen/cmsis_dap.py)\<close>

text \<open>
  The source is one synchronous circuit: class \<open>CMSIS_DAP\<close>, whose \<open>elaborate\<close>
  builds a finite-state machine over a flat set of registers.  The model is
  cycle accurate: \<open>step i s\<close> is the register state after one clock edge, given the
  registers \<open>s\<close> before the edge and the values \<open>i\<close> that the collaborators
  (host streams, debug interface) present during the cycle.

  The conventions of the hardware description carry over as follows.
  \<^item> Every right-hand side of \<open>m.d.sync += x.eq(e)\<close> reads the registers before
    the edge; of several assignments to one register (or one slice of it) in a
    cycle the last one in program order wins.  Each handler therefore takes the
    old state \<open>s\<close>, which it reads, and an accumulator \<open>a\<close>, which it updates.
  \<^item> \<open>m.next = ...\<close> is an assignment to the register \<open>fsm\<close>.
  \<^item> A register of width w is a \<open>w word\<close>; an assignment truncates, which is the
    wrap-around of word arithmetic.  Comparisons that the source makes on widened
    values (\<open>rxedLen+1 == rxLen\<close>) are made on \<open>unat\<close>.
  \<^item> \<open>rxBlock\<close> (56 bit) and \<open>txBlock\<close> (112 bit) are only accessed in whole
    bytes, apart from single bits of one byte; they are lists of 7 and 14 bytes,
    byte k being \<open>word_select(k,8)\<close>.
\<close>

type_synonym byte = "8 word"

subsection \<open>Constants of the source\<close>

abbreviation (input) DAP_CONNECT_DEFAULT :: nat where "DAP_CONNECT_DEFAULT \<equiv> 1"
abbreviation (input) DAP_CAPABILITIES :: byte where "DAP_CAPABILITIES \<equiv> 0x03"
abbreviation (input) DAP_MAX_PACKET_COUNT :: byte where "DAP_MAX_PACKET_COUNT \<equiv> 1"
abbreviation (input) DAP_V1_MAX_PACKET_SIZE :: nat where "DAP_V1_MAX_PACKET_SIZE \<equiv> 64"
abbreviation (input) DAP_V2_MAX_PACKET_SIZE :: nat where "DAP_V2_MAX_PACKET_SIZE \<equiv> 511"

abbreviation (input) DAP_Info :: byte where "DAP_Info \<equiv> 0x00"
abbreviation (input) DAP_HostStatus :: byte where "DAP_HostStatus \<equiv> 0x01"
abbreviation (input) DAP_Connect :: byte where "DAP_Connect \<equiv> 0x02"
abbreviation (input) DAP_Disconnect :: byte where "DAP_Disconnect \<equiv> 0x03"
abbreviation (input) DAP_TransferConfigure :: byte where "DAP_TransferConfigure \<equiv> 0x04"
abbreviation (input) DAP_Transfer :: byte where "DAP_Transfer \<equiv> 0x05"
abbreviation (input) DAP_TransferBlock :: byte where "DAP_TransferBlock \<equiv> 0x06"
abbreviation (input) DAP_TransferAbort :: byte where "DAP_TransferAbort \<equiv> 0x07"
abbreviation (input) DAP_WriteABORT :: byte where "DAP_WriteABORT \<equiv> 0x08"
abbreviation (input) DAP_Delay :: byte where "DAP_Delay \<equiv> 0x09"
abbreviation (input) DAP_ResetTarget :: byte where "DAP_ResetTarget \<equiv> 0x0a"
abbreviation (input) DAP_SWJ_Pins :: byte where "DAP_SWJ_Pins \<equiv> 0x10"
abbreviation (input) DAP_SWJ_Clock :: byte where "DAP_SWJ_Clock \<equiv> 0x11"
abbreviation (input) DAP_SWJ_Sequence :: byte where "DAP_SWJ_Sequence \<equiv> 0x12"
abbreviation (input) DAP_SWD_Configure :: byte where "DAP_SWD_Configure \<equiv> 0x13"
abbreviation (input) DAP_JTAG_Sequence :: byte where "DAP_JTAG_Sequence \<equiv> 0x14"
abbreviation (input) DAP_JTAG_Configure :: byte where "DAP_JTAG_Configure \<equiv> 0x15"
abbreviation (input) DAP_JTAG_IDCODE :: byte where "DAP_JTAG_IDCODE \<equiv> 0x16"
abbreviation (input) DAP_SWO_Transport :: byte where "DAP_SWO_Transport \<equiv> 0x17"
abbreviation (input) DAP_SWO_Mode :: byte where "DAP_SWO_Mode \<equiv> 0x18"
abbreviation (input) DAP_SWO_Baudrate :: byte where "DAP_SWO_Baudrate \<equiv> 0x19"
abbreviation (input) DAP_SWO_Control :: byte where "DAP_SWO_Control \<equiv> 0x1a"
abbreviation (input) DAP_SWO_Status :: byte where "DAP_SWO_Status \<equiv> 0x1b"
abbreviation (input) DAP_SWO_Data :: byte where "DAP_SWO_Data \<equiv> 0x1c"
abbreviation (input) DAP_SWD_Sequence :: byte where "DAP_SWD_Sequence \<equiv> 0x1d"
abbreviation (input) DAP_SWO_ExtendedStatus :: byte where "DAP_SWO_ExtendedStatus \<equiv> 0x1e"
abbreviation (input) DAP_ExecuteCommands :: byte where "DAP_ExecuteCommands \<equiv> 0x7f"
abbreviation (input) DAP_QueueCommands :: byte where "DAP_QueueCommands \<equiv> 0x7e"
abbreviation (input) DAP_Invalid :: byte where "DAP_Invalid \<equiv> 0xff"

text \<open>Commands to the debug interface (\<open>CMD_*\<close>).\<close>

abbreviation (input) CMD_RESET :: nat where "CMD_RESET \<equiv> 0"
abbreviation (input) CMD_PINS_WRITE :: nat where "CMD_PINS_WRITE \<equiv> 1"
abbreviation (input) CMD_TRANSACT :: nat where "CMD_TRANSACT \<equiv> 2"
abbreviation (input) CMD_SET_SWD :: nat where "CMD_SET_SWD \<equiv> 3"
abbreviation (input) CMD_SET_JTAG :: nat where "CMD_SET_JTAG \<equiv> 4"
abbreviation (input) CMD_SET_SWJ :: nat where "CMD_SET_SWJ \<equiv> 5"
abbreviation (input) CMD_SET_JTAG_CFG :: nat where "CMD_SET_JTAG_CFG \<equiv> 6"
abbreviation (input) CMD_SET_CLK :: nat where "CMD_SET_CLK \<equiv> 7"
abbreviation (input) CMD_SET_SWD_CFG :: nat where "CMD_SET_SWD_CFG \<equiv> 8"
abbreviation (input) CMD_WAIT :: nat where "CMD_WAIT \<equiv> 9"
abbreviation (input) CMD_CLR_ERR :: nat where "CMD_CLR_ERR \<equiv> 10"
abbreviation (input) CMD_SET_RST_TMR :: nat where "CMD_SET_RST_TMR \<equiv> 11"
abbreviation (input) CMD_SET_TFR_CFG :: nat where "CMD_SET_TFR_CFG \<equiv> 12"
abbreviation (input) CMD_JTAG_GET_ID :: nat where "CMD_JTAG_GET_ID \<equiv> 13"
abbreviation (input) CMD_JTAG_RESET :: nat where "CMD_JTAG_RESET \<equiv> 14"

subsection \<open>Registers and inputs\<close>

text \<open>
  The states of \<open>m.FSM\<close>, in the order of the source; the prefix \<open>S_\<close> keeps them
  apart from the command ids of the same name.
\<close>

datatype fsm_state =
    S_IDLE | S_RESPOND | S_V1PACKETFILL | S_RxParams
  | S_DAP_SWJ_Pins_PROCESS | S_DAP_SWO_Data_PROCESS | S_DAP_SWJ_Sequence_PROCESS
  | S_DAP_JTAG_Sequence_PROCESS | S_DAP_Transfer_PROCESS | S_DAP_TransferBlock_PROCESS
  | S_UPLOAD_RXED_DATA | S_JTAG_IDCODE_Process | S_DAP_SWD_Sequence_GetCount
  | S_DAP_TransferBlock | S_DAP_ExecuteCommands_GetNum | S_DAP_QueueCommands_GetNum
  | S_DAP_Wait_Done | S_DAP_Wait_Connect_Done | S_Error | S_ProtocolError

text \<open>
  What the collaborators present during one cycle.  \<open>streamOut\<close> is the stream
  from the host (its \<open>ready\<close> is \<open>~busy\<close>, a combinational output of the core),
  \<open>streamIn\<close> the stream to the host (its \<open>ready\<close> is an input).  The debug
  interface \<open>dbgif\<close> is not part of the sources; the widths of its result
  signals are those of the specification (3-bit ack, 32-bit read data, 16-bit
  pin state).
\<close>

record inputs =
  streamOut_valid :: bool
  streamOut_payload :: byte
  streamOut_first :: bool
  streamOut_last :: bool
  streamIn_ready :: bool
  isV2 :: bool
  dbgif_done :: bool
  dbgif_ack :: "3 word"
  dbgif_perr :: bool
  dbgif_again :: bool
  dbgif_ignoreData :: bool
  dbgif_postedMode :: bool
  dbgif_dread :: "32 word"
  dbgif_pinsout :: "16 word"

text \<open>
  The registers.  \<open>swjbits\<close>, \<open>tmsValue\<close>, \<open>tdoCapture\<close>, \<open>ndev\<close> and \<open>irlength\<close>
  are declared in \<open>__init__\<close> but never read or written, and are left out.
  \<open>mask_r\<close> is the register \<open>mask\<close>.  \<open>txLen\<close>, \<open>txedLen\<close> are
  \<open>Signal(range(511))\<close>, 9 bits; \<open>tfrram_adr\<close> is \<open>Signal(range(127))\<close>, 7 bits.
  The operand registers of the debug interface that the core drives
  (\<open>dbgif.command\<close>, \<open>go\<close>, ...) belong to the state; \<open>tfrram_mem\<close> is the memory
  of \<open>WideRam\<close> (127 words) and \<open>tfrram_dat_r\<close> the output register of its
  synchronous read port.
\<close>

record state =
  fsm :: fsm_state
  can :: bool
  running :: bool
  connected :: bool
  rxBlock :: "byte list"
  rxLen :: "3 word"
  rxedLen :: "3 word"
  txBlock :: "byte list"
  txLen :: "9 word"
  txedLen :: "9 word"
  busy :: bool
  txb :: "5 word"
  bitcount :: "3 word"
  tdiData :: byte
  tdoCount :: "4 word"
  tdiCount :: "4 word"
  seqCount :: byte
  tckCycles :: "6 word"
  tdotgt :: "7 word"
  pendingTx :: byte
  tdoBuild :: byte
  dapIndex :: byte
  transferCount :: "16 word"
  mask_r :: "32 word"
  retries :: "16 word"
  matchretries :: "16 word"
  tfrReq :: byte
  tfrData :: "32 word"
  waitRetry :: "16 word"
  matchRetry :: "16 word"
  streamIn_valid :: bool
  streamIn_payload :: byte
  streamIn_last :: bool
  dbgif_command :: nat
  dbgif_apndp :: bool
  dbgif_rnw :: bool
  dbgif_addr32 :: "2 word"
  dbgif_dwrite :: "32 word"
  dbgif_go :: bool
  dbgif_pinsin :: "16 word"
  dbgif_countdown :: "32 word"
  tfrram_adr :: "7 word"
  tfrram_mem :: "32 word list"
  tfrram_dat_r :: "32 word"
  done_cdc :: "2 word"

subsection \<open>Slices\<close>

text \<open>
  \<open>rd xs k\<close> reads element k of a byte block or of the memory; outside the
  block it is 0.  (The source never reads outside \<open>rxBlock\<close> and \<open>txBlock\<close> on
  the paths of the theorems below; address 127 of the memory does not exist,
  and no theorem depends on it.)  A write outside the block changes nothing,
  which is what \<open>xs[k := v]\<close> does.
\<close>

definition rd :: "'a::zero list \<Rightarrow> nat \<Rightarrow> 'a" where
  "rd xs k = (if k < length xs then xs ! k else 0)"

text \<open>\<open>wr xs k vs\<close> writes the bytes \<open>vs\<close> from byte k on: an assignment to a
  slice of several bytes.\<close>

fun wr :: "'a list \<Rightarrow> nat \<Rightarrow> 'a list \<Rightarrow> 'a list" where
  "wr xs k [] = xs"
| "wr xs k (v # vs) = wr (xs[k := v]) (Suc k) vs"

text \<open>Byte k of a word (\<open>w.word_select(k,8)\<close>), and the bytes of a 32-bit word,
  least significant first.\<close>

definition byte_of :: "'a::len word \<Rightarrow> nat \<Rightarrow> byte" where
  "byte_of w k = ucast (drop_bit (8 * k) w)"

definition bytes32 :: "32 word \<Rightarrow> byte list" where
  "bytes32 w = [byte_of w 0, byte_of w 1, byte_of w 2, byte_of w 3]"

text \<open>\<open>Cat(b0, b1)\<close> and \<open>Cat(b0, b1, b2, b3)\<close> of bytes: \<open>b0\<close> is least significant.\<close>

definition le16 :: "byte \<Rightarrow> byte \<Rightarrow> 16 word" where
  "le16 b0 b1 = ucast b0 OR push_bit 8 (ucast b1)"

definition le32 :: "byte \<Rightarrow> byte \<Rightarrow> byte \<Rightarrow> byte \<Rightarrow> 32 word" where
  "le32 b0 b1 b2 b3 =
     ucast b0 OR push_bit 8 (ucast b1) OR push_bit 16 (ucast b2) OR push_bit 24 (ucast b3)"

text \<open>\<open>w.word_select(k,8).eq(v)\<close> on a 32-bit register.\<close>

definition set_byte32 :: "32 word \<Rightarrow> nat \<Rightarrow> byte \<Rightarrow> 32 word" where
  "set_byte32 w k v = (w AND NOT (push_bit (8 * k) 0xFF)) OR push_bit (8 * k) (ucast v)"

text \<open>\<open>w.bit_select(k,1).eq(b)\<close>.\<close>

definition wr_bit :: "'a::len word \<Rightarrow> nat \<Rightarrow> bool \<Rightarrow> 'a word" where
  "wr_bit w k b = (if b then set_bit k w else unset_bit k w)"

text \<open>\<open>dbg_done\<close>: the completion signal of the debug interface after the
  two-stage synchroniser \<open>done_cdc\<close>.\<close>

definition dbg_done :: "state \<Rightarrow> bool" where
  "dbg_done s = (done_cdc s = 3)"

text \<open>\<open>streamOut.valid & streamOut.ready\<close>, with \<open>streamOut.ready = ~busy\<close>.\<close>

definition rx_strobe :: "inputs \<Rightarrow> state \<Rightarrow> bool" where
  "rx_strobe i s = (streamOut_valid i \<and> \<not> busy s)"

subsection \<open>The simple handlers\<close>

text \<open>\<open>RESP_Invalid\<close>: transmit an invalid packet.  It reads no register.\<close>

definition RESP_Invalid :: "state \<Rightarrow> state" where
  "RESP_Invalid a =
     a\<lparr>txBlock := (txBlock a)[0 := DAP_Invalid], txLen := 1, busy := True, fsm := S_RESPOND\<rparr>"

text \<open>
  \<open>RESP_Info\<close>.  \<open>DAP_PROTOCOL_STRING\<close> is 7 bytes written to the 8-byte slice
  \<open>bit_select(8,64)\<close>, and \<open>DAP_VERSION_STRING\<close> 6 bytes written to the 7-byte slice
  \<open>bit_select(8,56)\<close>: the assignment zero-extends, so one more zero byte is written.
  Likewise \<open>Cat(C(8,8),C(DAP_TD_TIMER_FREQ,32))\<close> is 5 bytes written to the 6-byte
  slice \<open>[8:56]\<close>.  \<open>DAP_TD_TIMER_FREQ = 0x3B9ACA00\<close>.
\<close>

definition RESP_Info :: "inputs \<Rightarrow> state \<Rightarrow> state \<Rightarrow> state" where
  "RESP_Info i s a =
    (let a1 = a\<lparr>fsm := S_RESPOND\<rparr>; k = rd (rxBlock s) 1 in
     if k \<in> {0x01, 0x02, 0x03, 0x05, 0x06, 0x07, 0x08} then
       a1\<lparr>txLen := 2, txBlock := wr (txBlock a1) 1 [0]\<rparr>
     else if k = 0x04 then
       a1\<lparr>txLen := 8, txBlock := wr (txBlock a1) 1 [6, 0x32, 0x2e, 0x31, 0x2e, 0x30, 0, 0]\<rparr>
     else if k = 0x09 then
       a1\<lparr>txLen := 7, txBlock := wr (txBlock a1) 1 [5, 0x31, 0x2e, 0x30, 0x30, 0, 0]\<rparr>
     else if k = 0xF0 then
       a1\<lparr>txLen := 3, txBlock := wr (txBlock a1) 1 [1, DAP_CAPABILITIES]\<rparr>
     else if k = 0xF1 then
       a1\<lparr>txLen := 6, txBlock := wr (txBlock a1) 1 ([8] @ bytes32 0x3B9ACA00 @ [0])\<rparr>
     else if k = 0xFD then
       a1\<lparr>txLen := 6, txBlock := wr (txBlock a1) 1 ([4] @ bytes32 0)\<rparr>
     else if k = 0xFE then
       a1\<lparr>txLen := 6, txBlock := wr (txBlock a1) 1 [1, DAP_MAX_PACKET_COUNT]\<rparr>
     else if k = 0xFF then
       (if isV2 i then
          a1\<lparr>txLen := 6, txBlock := wr (txBlock a1) 1
                [2, byte_of (word_of_nat DAP_V2_MAX_PACKET_SIZE :: 16 word) 0,
                    byte_of (word_of_nat DAP_V2_MAX_PACKET_SIZE :: 16 word) 1]\<rparr>
        else
          a1\<lparr>txLen := 6, txBlock := wr (txBlock a1) 1
                [2, byte_of (word_of_nat DAP_V1_MAX_PACKET_SIZE :: 16 word) 0,
                    byte_of (word_of_nat DAP_V1_MAX_PACKET_SIZE :: 16 word) 1]\<rparr>)
     else RESP_Invalid a1)"

definition RESP_Not_Implemented :: "state \<Rightarrow> state" where
  "RESP_Not_Implemented a = a\<lparr>txBlock := (txBlock a)[1 := 0xff], fsm := S_RESPOND\<rparr>"

definition RESP_HostStatus :: "state \<Rightarrow> state \<Rightarrow> state" where
  "RESP_HostStatus s a =
    (let a1 = a\<lparr>fsm := S_RESPOND\<rparr>; k = rd (rxBlock s) 1 in
     if k = 0x00 then a1\<lparr>connected := (rd (rxBlock s) 2 = 1)\<rparr>
     else if k = 0x01 then a1\<lparr>running := (rd (rxBlock s) 2 = 1)\<rparr>
     else RESP_Invalid a1)"

text \<open>
  \<open>RESP_Connect_Setup\<close> first calls \<open>RESP_Invalid\<close> and then overrides it.  Both
  Python-level tests on \<open>DAP_CAPABILITIES\<close> (= 3) succeed, so both \<open>m.If\<close> are
  built; \<open>DAP_CONNECT_DEFAULT==1\<close> is true and \<open>DAP_CONNECT_DEFAULT==2\<close> false.
\<close>

definition RESP_Connect_Setup :: "state \<Rightarrow> state \<Rightarrow> state" where
  "RESP_Connect_Setup s a =
    (let a1 = RESP_Invalid a;
         port = rd (rxBlock s) 1;
         a2 = (if (port = 0 \<and> DAP_CONNECT_DEFAULT = 1) \<or> port = 1 then
                 a1\<lparr>txBlock := wr (txBlock a1) 0 [rd (rxBlock s) 0, 1],
                    dbgif_command := CMD_SET_SWD, txLen := 2, dbgif_go := True,
                    fsm := S_DAP_Wait_Connect_Done\<rparr>
               else a1)
     in if (port = 0 \<and> DAP_CONNECT_DEFAULT = 2) \<or> port = 2 then
          a2\<lparr>txBlock := wr (txBlock a2) 0 [rd (rxBlock s) 0, 2],
             dbgif_command := CMD_SET_JTAG, txLen := 2, dbgif_go := True,
             fsm := S_DAP_Wait_Connect_Done\<rparr>
        else a2)"

definition RESP_Wait_Connect_Done :: "state \<Rightarrow> state \<Rightarrow> state" where
  "RESP_Wait_Connect_Done s a =
    (let a1 = (if dbgif_go s \<and> \<not> dbg_done s then a\<lparr>dbgif_go := False\<rparr> else a)
     in if \<not> dbgif_go s \<and> dbg_done s then a1\<lparr>fsm := S_RESPOND\<rparr> else a1)"

definition RESP_Wait_Done :: "inputs \<Rightarrow> state \<Rightarrow> state \<Rightarrow> state" where
  "RESP_Wait_Done i s a =
    (let a1 = (if dbgif_go s \<and> \<not> dbg_done s then a\<lparr>dbgif_go := False\<rparr> else a)
     in if \<not> dbgif_go s \<and> dbg_done s then
          a1\<lparr>txBlock := (txBlock a1)[1 := (if dbgif_perr i then 0xff else 0)],
             fsm := S_RESPOND\<rparr>
        else a1)"

definition RESP_Disconnect :: "state \<Rightarrow> state" where
  "RESP_Disconnect a = a\<lparr>running := False, connected := False, fsm := S_RESPOND\<rparr>"

definition RESP_WriteABORT :: "state \<Rightarrow> state \<Rightarrow> state" where
  "RESP_WriteABORT s a =
     a\<lparr>dbgif_command := CMD_TRANSACT, dbgif_apndp := False, dbgif_rnw := False,
       dbgif_addr32 := 0,
       dbgif_dwrite := le32 (rd (rxBlock s) 2) (rd (rxBlock s) 3) (rd (rxBlock s) 4) (rd (rxBlock s) 5),
       dbgif_go := True, fsm := S_DAP_Wait_Done\<rparr>"

text \<open>\<open>RESP_Delay\<close>: the 16-bit \<open>Cat\<close> of byte 2 (low) and byte 1 (high),
  zero-extended.\<close>

definition RESP_Delay :: "state \<Rightarrow> state \<Rightarrow> state" where
  "RESP_Delay s a =
     a\<lparr>dbgif_dwrite := ucast (le16 (rd (rxBlock s) 2) (rd (rxBlock s) 1)),
       dbgif_command := CMD_WAIT, dbgif_go := True, fsm := S_DAP_Wait_Done\<rparr>"

text \<open>\<open>RESP_ResetTarget\<close>: \<open>Cat(C(0,8),C(1,1),C(0,7))\<close> is byte 1 = 0, byte 2 = 1.\<close>

definition RESP_ResetTarget :: "state \<Rightarrow> state" where
  "RESP_ResetTarget a =
     a\<lparr>txBlock := wr (txBlock a) 1 [0, 1], txLen := 3,
       dbgif_command := CMD_RESET, dbgif_go := True, fsm := S_DAP_Wait_Done\<rparr>"

text \<open>\<open>RESP_SWJ_Pins_Setup\<close> reads the countdown from \<open>txBlock\<close> (sic).\<close>

definition RESP_SWJ_Pins_Setup :: "state \<Rightarrow> state \<Rightarrow> state" where
  "RESP_SWJ_Pins_Setup s a =
     a\<lparr>dbgif_pinsin := le16 (rd (rxBlock s) 1) (rd (rxBlock s) 2),
       dbgif_countdown := le32 (rd (txBlock s) 3) (rd (txBlock s) 4) (rd (txBlock s) 5) (rd (txBlock s) 6),
       fsm := S_DAP_SWJ_Pins_PROCESS\<rparr>"

definition RESP_SWJ_Pins_Process :: "inputs \<Rightarrow> state \<Rightarrow> state \<Rightarrow> state" where
  "RESP_SWJ_Pins_Process i s a =
    (let a1 = (if dbg_done s then
                 a\<lparr>txBlock := (txBlock a)[1 := ucast (dbgif_pinsout i)], txLen := 2\<rparr>
               else a)
     in a1\<lparr>fsm := S_RESPOND\<rparr>)"

definition RESP_SWJ_Clock :: "state \<Rightarrow> state \<Rightarrow> state" where
  "RESP_SWJ_Clock s a =
     a\<lparr>dbgif_dwrite := le32 (rd (rxBlock s) 1) (rd (rxBlock s) 2) (rd (rxBlock s) 3) (rd (rxBlock s) 4),
       dbgif_command := CMD_SET_CLK, dbgif_go := True, fsm := S_DAP_Wait_Done\<rparr>"

definition RESP_SWD_Configure :: "state \<Rightarrow> state \<Rightarrow> state" where
  "RESP_SWD_Configure s a =
     a\<lparr>dbgif_dwrite := ucast (rd (rxBlock s) 1),
       dbgif_command := CMD_SET_SWD_CFG, dbgif_go := True, fsm := S_DAP_Wait_Done\<rparr>"

text \<open>
  \<open>RESP_JTAG_Configure\<close>.  Each \<open>rxBlock.bit_select(8k+3,5)-1\<close> is the upper five
  bits of byte k less one, a 6-bit value (a subtraction widens by one bit);
  \<open>C(2,0)\<close> has no bits.  The six 6-bit fields are concatenated, lowest first,
  and the 36 bits are truncated to the 32 of \<open>dwrite\<close>.
\<close>

definition irlen_field :: "byte \<Rightarrow> nat" where
  "irlen_field b = (unat (drop_bit 3 b) + 63) mod 64"

definition RESP_JTAG_Configure :: "state \<Rightarrow> state \<Rightarrow> state" where
  "RESP_JTAG_Configure s a =
     a\<lparr>dbgif_dwrite := word_of_nat
          (irlen_field (rd (rxBlock s) 1) + 2 ^ 6 * irlen_field (rd (rxBlock s) 2)
           + 2 ^ 12 * irlen_field (rd (rxBlock s) 3) + 2 ^ 18 * irlen_field (rd (rxBlock s) 4)
           + 2 ^ 24 * irlen_field (rd (rxBlock s) 5) + 2 ^ 30 * irlen_field (rd (rxBlock s) 6)),
       dbgif_command := CMD_SET_JTAG_CFG, dbgif_go := True, fsm := S_DAP_Wait_Done\<rparr>"

definition RESP_JTAG_IDCODE_Setup :: "state \<Rightarrow> state \<Rightarrow> state" where
  "RESP_JTAG_IDCODE_Setup s a =
     a\<lparr>dbgif_command := CMD_JTAG_GET_ID, dbgif_dwrite := ucast (rd (rxBlock s) 1),
       txLen := 6, txBlock := wr (txBlock a) 2 (bytes32 0), dbgif_go := True,
       fsm := S_JTAG_IDCODE_Process\<rparr>"

definition RESP_JTAG_IDCODE_Process :: "inputs \<Rightarrow> state \<Rightarrow> state \<Rightarrow> state" where
  "RESP_JTAG_IDCODE_Process i s a =
    (if \<not> dbg_done s then a\<lparr>dbgif_go := False\<rparr>
     else a\<lparr>txBlock := wr (txBlock a) 2 (bytes32 (dbgif_dread i)), fsm := S_RESPOND\<rparr>)"

definition RESP_TransferConfigure :: "state \<Rightarrow> state \<Rightarrow> state" where
  "RESP_TransferConfigure s a =
     a\<lparr>waitRetry := le16 (rd (rxBlock s) 2) (rd (rxBlock s) 3),
       matchRetry := le16 (rd (rxBlock s) 4) (rd (rxBlock s) 5),
       dbgif_dwrite := ucast (rd (rxBlock s) 1),
       dbgif_command := CMD_SET_TFR_CFG, dbgif_go := True, fsm := S_DAP_Wait_Done\<rparr>"

subsection \<open>SWJ_Sequence\<close>

definition RESP_SWJ_Sequence_Setup :: "state \<Rightarrow> state \<Rightarrow> state" where
  "RESP_SWJ_Sequence_Setup s a =
     a\<lparr>transferCount := (if rd (rxBlock s) 1 \<noteq> 0 then ucast (rd (rxBlock s) 1) else 256),
       txb := 0, dbgif_dwrite := 0, dbgif_pinsin := 0x1310, bitcount := 0,
       dbgif_command := CMD_PINS_WRITE, fsm := S_DAP_SWJ_Sequence_PROCESS\<rparr>"

text \<open>In case 1, \<open>Cat(C(1,0),tfrData[1:8])\<close> is the 7 bits 1..7 of \<open>tfrData\<close>
  (\<open>C(1,0)\<close> has no bits), zero-extended.\<close>

definition RESP_SWJ_Sequence_Process :: "inputs \<Rightarrow> state \<Rightarrow> state \<Rightarrow> state" where
  "RESP_SWJ_Sequence_Process i s a =
    (if txb s = 0 then
       (if rx_strobe i s then
          a\<lparr>tfrData := ucast (streamOut_payload i), txb := 1, busy := True\<rparr>
        else a\<lparr>busy := False\<rparr>)
     else if txb s = 1 then
       a\<lparr>dbgif_pinsin := wr_bit (wr_bit (dbgif_pinsin a) 0 False) 1 (bit (tfrData s) 0),
         tfrData := take_bit 7 (drop_bit 1 (tfrData s)),
         transferCount := transferCount s - 1,
         dbgif_go := True,
         bitcount := bitcount s + 1,
         txb := 2\<rparr>
     else if txb s = 2 then
       (let a1 = (if \<not> dbg_done s then a\<lparr>dbgif_go := False\<rparr> else a)
        in if \<not> dbgif_go s \<and> dbg_done s then
             a1\<lparr>dbgif_pinsin := wr_bit (dbgif_pinsin a1) 0 True, dbgif_go := True, txb := 3\<rparr>
           else a1)
     else if txb s = 3 then
       (let a1 = (if \<not> dbg_done s then a\<lparr>dbgif_go := False\<rparr> else a)
        in if \<not> dbgif_go s \<and> dbg_done s then
             (if transferCount s \<noteq> 0 then a1\<lparr>txb := (if bitcount s \<noteq> 0 then 1 else 0)\<rparr>
              else a1\<lparr>fsm := S_DAP_Wait_Done\<rparr>)
           else a1)
     else a)"

subsection \<open>DAP_Transfer\<close>

definition RESP_Transfer_Setup :: "state \<Rightarrow> state \<Rightarrow> state" where
  "RESP_Transfer_Setup s a =
    (let a1 = a\<lparr>dapIndex := rd (rxBlock s) 1, transferCount := ucast (rd (rxBlock s) 2),
                 tfrram_adr := 0, busy := True, txb := 0\<rparr>
     in if rd (rxBlock s) 2 \<noteq> 0 then a1\<lparr>fsm := S_DAP_Transfer_PROCESS\<rparr>
        else a1\<lparr>txBlock := (txBlock a1)[2 := 1], busy := False, txLen := 3, fsm := S_RESPOND\<rparr>)"

text \<open>\<open>Cat(dbgif.ack, dbgif.perr)\<close> as a byte: the ack in bits 0..2, the fault flag
  in bit 3.\<close>

definition ack_byte :: "inputs \<Rightarrow> byte" where
  "ack_byte i = ucast (dbgif_ack i) OR (if dbgif_perr i then 8 else 0)"

text \<open>
  \<open>RESP_Transfer_Process\<close>, one branch per case of \<open>m.Switch(self.txb)\<close>.  In
  case 7 the mismatch bit is \<open>txBlock.bit_select(21,1)\<close>, bit 5 of byte 2, set
  after the status byte has been written to the same byte in the same cycle.
\<close>

definition RESP_Transfer_Process :: "inputs \<Rightarrow> state \<Rightarrow> state \<Rightarrow> state" where
  "RESP_Transfer_Process i s a =
    (let a0 = a\<lparr>busy := True\<rparr>; p = streamOut_payload i in
     if txb s = 0 then
       (if \<not> rx_strobe i s then a0\<lparr>busy := False\<rparr>
        else
          (let a1 = a0\<lparr>tfrReq := p, retries := 0,
                       txBlock := (txBlock a0)[1 := rd (txBlock s) 1 + 1]\<rparr>
           in if \<not> bit p 1 \<or> bit p 4 \<or> bit p 5 then a1\<lparr>txb := 1\<rparr>
              else a1\<lparr>txb := 5, busy := True\<rparr>))
     else if txb s \<in> {1, 2, 3, 4} then
       (if rx_strobe i s then
          (let a1 = a0\<lparr>tfrData := set_byte32 (tfrData s) (unat (txb s) - 1) p, txb := txb s + 1\<rparr>
           in if bit (tfrReq s) 5 \<and> txb s = 5 then
                a1\<lparr>mask_r := ucast p OR push_bit 8 (tfrData s), txb := 0\<rparr>
              else a1)
        else a0\<lparr>busy := False\<rparr>)
     else if txb s = 5 then
       a0\<lparr>dbgif_command := CMD_TRANSACT,
          dbgif_apndp := bit (tfrReq s) 0,
          dbgif_rnw := bit (tfrReq s) 1,
          dbgif_addr32 := ucast (drop_bit 2 (tfrReq s)),
          dbgif_dwrite := tfrData s,
          dbgif_go := True,
          txb := txb s + 1\<rparr>
     else if txb s = 6 then
       (if \<not> dbg_done s then a0\<lparr>dbgif_go := False, txb := 7\<rparr> else a0)
     else if txb s = 7 then
       (if dbg_done s then
          (let a1 = a0\<lparr>txBlock := (txBlock a0)[2 := ack_byte i]\<rparr> in
           if dbgif_ack i = 2 then
             a1\<lparr>retries := retries s + 1,
                txb := (if retries s < waitRetry s then 5 else 8)\<rparr>
           else if bit (tfrReq s) 4 then
             (if (dbgif_dread i AND mask_r s) \<noteq> tfrData s \<and> matchretries s < matchRetry s then
                a1\<lparr>txBlock := (txBlock a1)[2 := set_bit 5 (rd (txBlock a1) 2)], txb := 8\<rparr>
              else a1\<lparr>txb := 5\<rparr>)
           else
             (let a2 = (if dbgif_again i \<or> (\<not> dbgif_ignoreData i \<and> dbgif_rnw s) then
                          a1\<lparr>tfrram_adr := tfrram_adr s + 1\<rparr>
                        else a1)
              in if dbgif_again i then a2\<lparr>txb := 5\<rparr>
                 else
                   (let a3 = a2\<lparr>transferCount := transferCount s - 1\<rparr> in
                    if dbgif_ack i = 1 \<and> \<not> dbgif_perr i \<and> transferCount s > 1 then a3\<lparr>txb := 0\<rparr>
                    else if dbgif_postedMode i then a3\<lparr>tfrReq := 0x0E, retries := 0, txb := 5\<rparr>
                    else a3\<lparr>txb := 8\<rparr>)))
        else a0)
     else if txb s \<in> {8, 9, 10} then
       (if streamIn_ready i then
          a0\<lparr>streamIn_payload := rd (txBlock s) (unat (txb s) - 8),
             streamIn_valid := True,
             txb := txb s + 1,
             streamIn_last := (isV2 i \<and> txb s = 10 \<and> tfrram_adr s = 0)\<rparr>
        else a0)
     else if txb s = 11 then
       a0\<lparr>fsm := S_UPLOAD_RXED_DATA, txb := 0, txedLen := ucast (tfrram_adr s) * 4 + 3\<rparr>
     else a0)"

subsection \<open>DAP_TransferBlock\<close>

text \<open>The transfer count is bytes 2 and 3 of the request, the request byte is
  byte 4; the count of the response is set to 1 (bytes 1 and 2 of \<open>txBlock\<close>).
  With a count of 0, \<open>C(1,24)\<close> is written to bytes 1..3.\<close>

definition RESP_TransferBlock_Setup :: "state \<Rightarrow> state \<Rightarrow> state" where
  "RESP_TransferBlock_Setup s a =
    (let req = rd (rxBlock s) 4;
         cnt = le16 (rd (rxBlock s) 2) (rd (rxBlock s) 3);
         a1 = a\<lparr>tfrram_adr := 0, dbgif_command := CMD_TRANSACT, retries := 0,
                 dapIndex := rd (rxBlock s) 1,
                 transferCount := cnt,
                 dbgif_apndp := bit req 0, dbgif_rnw := bit req 1,
                 dbgif_addr32 := ucast (drop_bit 2 req),
                 txBlock := wr (txBlock a) 1 [1, 0],
                 txb := (if bit req 1 then 4 else 0),
                 retries := 0\<rparr>
     in if cnt \<noteq> 0 then a1\<lparr>fsm := S_DAP_TransferBlock_PROCESS\<rparr>
        else a1\<lparr>txBlock := wr (txBlock a1) 1 [1, 0, 0], txLen := 4, fsm := S_RESPOND\<rparr>)"

definition RESP_TransferBlock_Process :: "inputs \<Rightarrow> state \<Rightarrow> state \<Rightarrow> state" where
  "RESP_TransferBlock_Process i s a =
    (let a0 = a\<lparr>busy := True\<rparr> in
     if txb s \<in> {0, 1, 2, 3} then
       (if rx_strobe i s then
          a0\<lparr>tfrData := set_byte32 (tfrData s) (unat (txb s)) (streamOut_payload i),
             txb := txb s + 1\<rparr>
        else a0\<lparr>busy := False\<rparr>)
     else if txb s = 4 then
       a0\<lparr>dbgif_dwrite := tfrData s, dbgif_go := True, retries := retries s + 1, txb := 5\<rparr>
     else if txb s = 5 then
       (if \<not> dbg_done s then a0\<lparr>dbgif_go := False, txb := 6\<rparr> else a0)
     else if txb s = 6 then
       (if dbg_done s then
          (let a1 = a0\<lparr>txBlock := (txBlock a0)[3 := ack_byte i]\<rparr> in
           if dbgif_ack i = 2 then
             a1\<lparr>txb := (if retries s < waitRetry s then 4 else 7)\<rparr>
           else
             (let a2 = (if \<not> dbgif_ignoreData i \<and> dbgif_rnw s then
                          a1\<lparr>tfrram_adr := tfrram_adr s + 1\<rparr>
                        else a1)
              in if dbgif_again i then a2\<lparr>retries := 0, dbgif_go := True, txb := 5\<rparr>
                 else
                   (let a3 = a2\<lparr>transferCount := transferCount s - 1\<rparr>;
                        c = le16 (rd (txBlock s) 1) (rd (txBlock s) 2) + 1 in
                    if dbgif_ack i = 1 \<and> \<not> dbgif_perr i \<and> transferCount s > 1 then
                      a3\<lparr>retries := 0,
                         txBlock := wr (txBlock a3) 1 [byte_of c 0, byte_of c 1],
                         txb := (if dbgif_rnw s then 4 else 0)\<rparr>
                    else if dbgif_postedMode i then
                      a3\<lparr>dbgif_rnw := True, retries := 0, dbgif_apndp := False,
                         dbgif_addr32 := 3, txb := 4\<rparr>
                    else a3\<lparr>txb := 7\<rparr>)))
        else a0)
     else if txb s \<in> {7, 8, 9, 10} then
       (if streamIn_ready i then
          a0\<lparr>streamIn_payload := rd (txBlock s) (unat (txb s) - 7),
             streamIn_valid := True,
             txb := txb s + 1,
             streamIn_last := (isV2 i \<and> txb s = 10 \<and> \<not> dbgif_rnw s)\<rparr>
        else a0)
     else if txb s = 11 then
       a0\<lparr>txb := 0, txedLen := ucast (tfrram_adr s) * 4 + 4, fsm := S_UPLOAD_RXED_DATA\<rparr>
     else a0)"

text \<open>\<open>RESP_Transfer_Complete\<close> (state \<open>UPLOAD_RXED_DATA\<close>): the words of the
  memory are sent, byte by byte.  \<open>dat_r.word_select(4,8)\<close>, read when the last
  byte of a word has been taken, lies outside the word and is 0.\<close>

definition RESP_Transfer_Complete :: "inputs \<Rightarrow> state \<Rightarrow> state \<Rightarrow> state" where
  "RESP_Transfer_Complete i s a =
    (let a0 = a\<lparr>busy := True\<rparr> in
     if txb s = 0 then
       (if tfrram_adr s \<noteq> 0 then
          a0\<lparr>transferCount := ucast (tfrram_adr s), tfrram_adr := 0, txb := 1\<rparr>
        else a0\<lparr>txb := 7\<rparr>)
     else if txb s = 1 then a0\<lparr>txb := 2\<rparr>
     else if txb s = 2 then
       a0\<lparr>transferCount := transferCount s - 1,
          streamIn_payload := byte_of (tfrram_dat_r s) 0,
          txb := 3\<rparr>
     else if txb s \<in> {3, 4, 5, 6} then
       (let a1 = a0\<lparr>streamIn_valid := True\<rparr> in
        if streamIn_ready i \<and> streamIn_valid s then
          a1\<lparr>txb := txb s + 1,
             streamIn_payload := byte_of (tfrram_dat_r s) (unat (txb s) - 2),
             streamIn_last := (isV2 i \<and> transferCount s = 0 \<and> txb s = 5),
             streamIn_valid := (txb s \<noteq> 6)\<rparr>
        else a1)
     else if txb s = 7 then
       (if streamIn_ready i then
          (if transferCount s = 0 then
             (if isV2 i then a0\<lparr>fsm := S_IDLE\<rparr> else a0\<lparr>fsm := S_V1PACKETFILL\<rparr>)
           else a0\<lparr>txb := 1, tfrram_adr := tfrram_adr s + 1\<rparr>)
        else a0)
     else a0)"

subsection \<open>JTAG_Sequence\<close>

definition RESP_JTAG_Sequence_Setup :: "state \<Rightarrow> state \<Rightarrow> state" where
  "RESP_JTAG_Sequence_Setup s a =
     a\<lparr>seqCount := rd (rxBlock s) 1, dbgif_dwrite := 0, txedLen := 2,
       dbgif_pinsin := 0x1710, dbgif_command := CMD_PINS_WRITE, txb := 0,
       fsm := S_DAP_JTAG_Sequence_PROCESS\<rparr>"

definition RESP_JTAG_Sequence_PROCESS :: "inputs \<Rightarrow> state \<Rightarrow> state \<Rightarrow> state" where
  "RESP_JTAG_Sequence_PROCESS i s a =
    (let a0 = a\<lparr>busy := True, streamIn_valid := False, can := False\<rparr>;
         p = streamOut_payload i in
     if txb s = 0 then
       (if streamIn_ready i then
          a0\<lparr>streamIn_payload := DAP_JTAG_Sequence, streamIn_last := False,
             streamIn_valid := True, pendingTx := 0,
             txb := (if seqCount s \<noteq> 0 then 1 else 7)\<rparr>
        else a0)
     else if txb s = 1 then
       (if rx_strobe i s then
          a0\<lparr>seqCount := seqCount s - 1,
             tckCycles := ucast p,
             dbgif_pinsin := wr_bit (dbgif_pinsin a0) 1 (bit p 6),
             tdotgt := (if bit p 7 then (if take_bit 6 p \<noteq> 0 then ucast (take_bit 6 p) else 0x40)
                        else 0),
             txb := 2\<rparr>
        else a0\<lparr>busy := False\<rparr>)
     else if txb s = 2 then
       (if rx_strobe i s then a0\<lparr>tdiData := p, tdiCount := 0, txb := 3\<rparr>
        else a0\<lparr>busy := False\<rparr>)
     else if txb s = 3 then
       a0\<lparr>dbgif_pinsin :=
            wr_bit (wr_bit (dbgif_pinsin a0) 2 (bit (tdiData s) (unat (tdiCount s)))) 0 False,
          dbgif_go := True, txb := 4\<rparr>
     else if txb s = 4 then
       (let a1 = (if \<not> dbg_done s then a0\<lparr>dbgif_go := False\<rparr> else a0)
        in if \<not> dbgif_go s \<and> dbg_done s then
             a1\<lparr>dbgif_pinsin := wr_bit (dbgif_pinsin a1) 0 True, dbgif_go := True, txb := 5\<rparr>
           else a1)
     else if txb s = 5 then
       (let a1 = (if \<not> dbg_done s then a0\<lparr>dbgif_go := False\<rparr> else a0)
        in if \<not> dbgif_go s \<and> dbg_done s then
             (let a2 = a1\<lparr>tckCycles := tckCycles s - 1, tdiCount := tdiCount s + 1, txb := 6\<rparr>
              in if tdotgt s \<noteq> 0 then
                   a2\<lparr>can := bit (dbgif_pinsout i) 3,
                      tdoBuild := wr_bit (tdoBuild s) (unat (tdoCount s)) (bit (dbgif_pinsout i) 3),
                      tdoCount := tdoCount s + 1,
                      tdotgt := tdotgt s - 1\<rparr>
                 else a2)
           else a1)
     else if txb s = 6 then
       (if (tdotgt s = 0 \<and> tdoCount s \<noteq> 0) \<or> tdoCount s = 8 then
          (if streamIn_ready i then
             a0\<lparr>streamIn_payload := pendingTx s, streamIn_valid := True,
                pendingTx := tdoBuild s, tdoCount := 0, tdoBuild := 0,
                txedLen := txedLen s + 1\<rparr>
           else a0)
        else if tckCycles s = 0 then a0\<lparr>txb := (if seqCount s \<noteq> 0 then 1 else 7)\<rparr>
        else a0\<lparr>txb := (if tdiCount s = 8 then 2 else 3)\<rparr>)
     else if txb s = 7 then
       (if streamIn_ready i then
          a0\<lparr>streamIn_payload := pendingTx s,
             streamIn_last := (isV2 i \<or> txedLen s = 64),
             streamIn_valid := True, txb := 8\<rparr>
        else a0)
     else if txb s = 8 then
       (if isV2 i \<or> txedLen s = 64 then a0\<lparr>fsm := S_IDLE\<rparr> else a0\<lparr>fsm := S_V1PACKETFILL\<rparr>)
     else a0)"

subsection \<open>The dispatcher: the states of \<open>elaborate\<close>\<close>

text \<open>
  State \<open>IDLE\<close>.  The first byte of a packet is stored, the default response
  (the command id followed by 0) is prepared, and the next state is
  \<open>ProtocolError\<close> unless the \<open>Switch\<close> on the command id overrides it.
\<close>

definition st_IDLE :: "inputs \<Rightarrow> state \<Rightarrow> state \<Rightarrow> state" where
  "st_IDLE i s a =
    (let a1 = a\<lparr>txedLen := 0, busy := False\<rparr>; p = streamOut_payload i in
     if rx_strobe i s \<and> streamOut_first i then
       (let a2 = a1\<lparr>fsm := S_ProtocolError, rxedLen := 1,
                    rxBlock := (rxBlock a1)[0 := p],
                    txBlock := wr (txBlock a1) 0 [p, 0],
                    txLen := 2\<rparr>;
            more = (\<lambda>b. if \<not> streamOut_last i then b\<lparr>fsm := S_RxParams\<rparr> else b)
        in
        if p \<in> {DAP_Disconnect, DAP_ResetTarget, DAP_SWO_Status, DAP_TransferAbort} then
          a2\<lparr>rxLen := 1, busy := True, fsm := S_RxParams\<rparr>
        else if p \<in> {DAP_Info, DAP_Connect, DAP_SWD_Configure, DAP_SWO_Transport, DAP_SWJ_Sequence,
                      DAP_SWO_Mode, DAP_SWO_Control, DAP_SWO_ExtendedStatus, DAP_JTAG_IDCODE,
                      DAP_JTAG_Sequence} then
          more (a2\<lparr>rxLen := 2\<rparr>)
        else if p \<in> {DAP_HostStatus, DAP_SWO_Data, DAP_Delay, DAP_JTAG_Configure, DAP_Transfer} then
          more (a2\<lparr>rxLen := 3\<rparr>)
        else if p \<in> {DAP_SWO_Baudrate, DAP_SWJ_Clock, DAP_TransferBlock} then
          more (a2\<lparr>rxLen := 5\<rparr>)
        else if p \<in> {DAP_WriteABORT, DAP_TransferConfigure} then
          more (a2\<lparr>rxLen := 6\<rparr>)
        else if p = DAP_SWJ_Pins then
          more (a2\<lparr>rxLen := 7\<rparr>)
        else if p = DAP_SWD_Sequence then
          (if \<not> streamOut_last i then a2\<lparr>fsm := S_DAP_SWD_Sequence_GetCount\<rparr> else a2)
        else if p = DAP_ExecuteCommands then
          (if \<not> streamOut_last i then a2\<lparr>fsm := S_DAP_ExecuteCommands_GetNum\<rparr> else a2)
        else if p = DAP_QueueCommands then
          (if \<not> streamOut_last i then a2\<lparr>fsm := S_DAP_QueueCommands_GetNum\<rparr> else a2)
        else RESP_Invalid a2)
     else a1)"

text \<open>State \<open>RESPOND\<close>.  \<open>txedLen == txLen-1\<close> is only evaluated under
  \<open>txedLen < txLen\<close>, where \<open>txLen-1\<close> does not wrap.\<close>

definition st_RESPOND :: "inputs \<Rightarrow> state \<Rightarrow> state \<Rightarrow> state" where
  "st_RESPOND i s a =
    (if txedLen s < txLen s then
       (let a1 = a\<lparr>streamIn_valid := True,
                    streamIn_payload := rd (txBlock s) (unat (txedLen s)),
                    streamIn_last := (isV2 i \<and> unat (txedLen s) + 1 = unat (txLen s))\<rparr>
        in if streamIn_ready i \<and> streamIn_valid s then
             a1\<lparr>txedLen := txedLen s + 1, streamIn_valid := False\<rparr>
           else a1)
     else if isV2 i \<or> unat (txedLen s) = DAP_V1_MAX_PACKET_SIZE then
       a\<lparr>streamIn_valid := False, busy := False, fsm := S_IDLE\<rparr>
     else a\<lparr>fsm := S_V1PACKETFILL\<rparr>)"

text \<open>State \<open>V1PACKETFILL\<close>.  In both \<open>Else\<close> branches the source builds
  \<open>self.streamIn.valid.eq(0)\<close> and \<open>self.busy.eq(0)\<close> without adding them to
  \<open>m.d.sync\<close>: they assign nothing, and only \<open>m.next = 'IDLE'\<close> takes effect.\<close>

definition st_V1PACKETFILL :: "inputs \<Rightarrow> state \<Rightarrow> state \<Rightarrow> state" where
  "st_V1PACKETFILL i s a =
    (if unat (txedLen s) < DAP_V1_MAX_PACKET_SIZE then
       (let a1 = a\<lparr>streamIn_valid := True, streamIn_payload := 0\<rparr> in
        if unat (txedLen s) < DAP_V1_MAX_PACKET_SIZE - 1 then
          (if streamIn_ready i \<and> streamIn_valid s then
             a1\<lparr>txedLen := txedLen s + 1, streamIn_valid := False\<rparr>
           else a1)
        else a1\<lparr>fsm := S_IDLE\<rparr>)
     else a\<lparr>fsm := S_IDLE\<rparr>)"

text \<open>State \<open>RxParams\<close>: the dispatch on the command id once all declared bytes
  are in, else the collection of the next byte.\<close>

definition dispatch :: "inputs \<Rightarrow> state \<Rightarrow> state \<Rightarrow> state" where
  "dispatch i s a =
    (let c = rd (rxBlock s) 0 in
     if c = DAP_Info then RESP_Info i s a
     else if c = DAP_HostStatus then RESP_HostStatus s a
     else if c = DAP_Connect then RESP_Connect_Setup s a
     else if c = DAP_Disconnect then RESP_Disconnect a
     else if c = DAP_WriteABORT then RESP_WriteABORT s a
     else if c = DAP_Delay then RESP_Delay s a
     else if c = DAP_ResetTarget then RESP_ResetTarget a
     else if c = DAP_SWJ_Pins then RESP_SWJ_Pins_Setup s a
     else if c = DAP_SWJ_Clock then RESP_SWJ_Clock s a
     else if c = DAP_SWJ_Sequence then RESP_SWJ_Sequence_Setup s a
     else if c = DAP_SWD_Configure then RESP_SWD_Configure s a
     else if c \<in> {DAP_SWO_Transport, DAP_SWO_Mode, DAP_SWO_Baudrate, DAP_SWO_Control,
                   DAP_SWO_Status, DAP_SWO_ExtendedStatus, DAP_SWO_Data} then
       RESP_Not_Implemented a
     else if c = DAP_JTAG_Sequence then RESP_JTAG_Sequence_Setup s a
     else if c = DAP_JTAG_Configure then RESP_JTAG_Configure s a
     else if c = DAP_JTAG_IDCODE then RESP_JTAG_IDCODE_Setup s a
     else if c = DAP_TransferConfigure then RESP_TransferConfigure s a
     else if c = DAP_Transfer then RESP_Transfer_Setup s a
     else if c = DAP_TransferBlock then RESP_TransferBlock_Setup s a
     else RESP_Invalid a)"

definition st_RxParams :: "inputs \<Rightarrow> state \<Rightarrow> state \<Rightarrow> state" where
  "st_RxParams i s a =
    (if rxedLen s = rxLen s then dispatch i s a
     else if rx_strobe i s then
       (let a1 = a\<lparr>rxBlock := (rxBlock a)[unat (rxedLen s) := streamOut_payload i],
                    rxedLen := rxedLen s + 1\<rparr>;
            a2 = (if unat (rxedLen s) + 1 = unat (rxLen s) then a1\<lparr>busy := True\<rparr> else a1)
        in if streamOut_last i \<and> unat (rxedLen s) + 1 \<noteq> unat (rxLen s) then RESP_Invalid a2
           else a2)
     else a)"

subsection \<open>One clock edge\<close>

text \<open>
  The statements of \<open>elaborate\<close> outside the FSM: \<open>streamIn.valid\<close> defaults to 0,
  the synchroniser \<open>done_cdc\<close> shifts in \<open>dbgif.done\<close> (\<open>Cat(done_cdc[1], done)\<close>),
  and the memory is written at \<open>tfrram.adr\<close> when \<open>done_cdc == 0b10\<close>.  Its data
  input \<open>dat_w\<close> is \<open>dbgif.dread\<close> in the two transfer states and 0 (the reset
  value of a combinational signal) elsewhere.  The read port is synchronous and
  transparent, with the same address.
\<close>

definition dat_w :: "inputs \<Rightarrow> state \<Rightarrow> 32 word" where
  "dat_w i s =
     (if fsm s = S_DAP_Transfer_PROCESS \<or> fsm s = S_DAP_TransferBlock_PROCESS
      then dbgif_dread i else 0)"

definition common :: "inputs \<Rightarrow> state \<Rightarrow> state" where
  "common i s =
    (let m = (if done_cdc s = 2 then (tfrram_mem s)[unat (tfrram_adr s) := dat_w i s]
              else tfrram_mem s)
     in s\<lparr>streamIn_valid := False,
          done_cdc := (if bit (done_cdc s) 1 then 1 else 0) OR (if dbgif_done i then 2 else 0),
          tfrram_mem := m,
          tfrram_dat_r := rd m (unat (tfrram_adr s))\<rparr>)"

definition step :: "inputs \<Rightarrow> state \<Rightarrow> state" where
  "step i s =
    (let a = common i s in
     case fsm s of
       S_IDLE \<Rightarrow> st_IDLE i s a
     | S_RESPOND \<Rightarrow> st_RESPOND i s a
     | S_V1PACKETFILL \<Rightarrow> st_V1PACKETFILL i s a
     | S_RxParams \<Rightarrow> st_RxParams i s a
     | S_DAP_SWJ_Pins_PROCESS \<Rightarrow> RESP_SWJ_Pins_Process i s a
     | S_DAP_SWO_Data_PROCESS \<Rightarrow> RESP_Not_Implemented a
     | S_DAP_SWJ_Sequence_PROCESS \<Rightarrow> RESP_SWJ_Sequence_Process i s a
     | S_DAP_JTAG_Sequence_PROCESS \<Rightarrow> RESP_JTAG_Sequence_PROCESS i s a
     | S_DAP_Transfer_PROCESS \<Rightarrow> RESP_Transfer_Process i s a
     | S_DAP_TransferBlock_PROCESS \<Rightarrow> RESP_TransferBlock_Process i s a
     | S_UPLOAD_RXED_DATA \<Rightarrow> RESP_Transfer_Complete i s a
     | S_JTAG_IDCODE_Process \<Rightarrow> RESP_JTAG_IDCODE_Process i s a
     | S_DAP_SWD_Sequence_GetCount \<Rightarrow> RESP_Invalid a
     | S_DAP_TransferBlock \<Rightarrow> RESP_Invalid a
     | S_DAP_ExecuteCommands_GetNum \<Rightarrow> RESP_Invalid a
     | S_DAP_QueueCommands_GetNum \<Rightarrow> RESP_Invalid a
     | S_DAP_Wait_Done \<Rightarrow> RESP_Wait_Done i s a
     | S_DAP_Wait_Connect_Done \<Rightarrow> RESP_Wait_Connect_Done s a
     | S_Error \<Rightarrow> RESP_Invalid a
     | S_ProtocolError \<Rightarrow> RESP_Invalid a)"

text \<open>The registers after reset: all 0, the FSM in its first state.\<close>

definition reset :: state where
  "reset =
    \<lparr>fsm = S_IDLE, can = False, running = False, connected = False,
     rxBlock = replicate 7 0, rxLen = 0, rxedLen = 0,
     txBlock = replicate 14 0, txLen = 0, txedLen = 0, busy = False, txb = 0,
     bitcount = 0, tdiData = 0, tdoCount = 0, tdiCount = 0, seqCount = 0,
     tckCycles = 0, tdotgt = 0, pendingTx = 0, tdoBuild = 0, dapIndex = 0,
     transferCount = 0, mask_r = 0, retries = 0, matchretries = 0, tfrReq = 0,
     tfrData = 0, waitRetry = 0, matchRetry = 0,
     streamIn_valid = False, streamIn_payload = 0, streamIn_last = False,
     dbgif_command = 0, dbgif_apndp = False, dbgif_rnw = False, dbgif_addr32 = 0,
     dbgif_dwrite = 0, dbgif_go = False, dbgif_pinsin = 0, dbgif_countdown = 0,
     tfrram_adr = 0, tfrram_mem = replicate 127 0, tfrram_dat_r = 0, done_cdc = 0\<rparr>"

section \<open>The collaborators\<close>

text \<open>
  To run the controller on a packet, the three collaborators are closed around
  \<open>step\<close>: the host, which presents the bytes of its packets in order and keeps
  each one until the core takes it (\<open>streamOut.ready\<close>, that is \<open>~busy\<close>); the sink
  of the response stream, which is always ready and records every byte it is
  handed (\<open>streamIn.valid\<close>) together with its \<open>last\<close> marker; and the debug
  interface.
\<close>

text \<open>The results the debug interface presents with a completed transaction.\<close>

record tresult =
  r_ack :: "3 word"
  r_perr :: bool
  r_again :: bool
  r_ignoreData :: bool
  r_postedMode :: bool
  r_dread :: "32 word"
  r_pinsout :: "16 word"

text \<open>The operand registers as the debug interface sees them when it accepts a
  request.\<close>

record treq =
  q_command :: nat
  q_apndp :: bool
  q_rnw :: bool
  q_addr32 :: "2 word"
  q_dwrite :: "32 word"

record env =
  host :: "(byte \<times> bool \<times> bool) list"
  v2 :: bool
  t_done :: bool
  t_res :: tresult
  t_log :: "treq list"
  sent :: "(byte \<times> bool) list"

text \<open>
  Modelled from the spec: the debug interface \<open>DBGIF\<close> (\<open>dbgIF.py\<close> is imported by
  the source but is not part of it).  Following section 4.2 of the specification
  and the header comment of the source, it holds \<open>done\<close> high while idle, drops
  \<open>done\<close> when it accepts a request (\<open>go\<close> high), and raises \<open>done\<close> again, with
  the results of the transaction, once \<open>go\<close> has been released.  \<open>resp k\<close> is the
  result of the request accepted as number k (from 0); the results stay until
  the next completion.
\<close>

definition transactor :: "(nat \<Rightarrow> tresult) \<Rightarrow> state \<Rightarrow> env \<Rightarrow> env" where
  "transactor resp s e =
    (if t_done e \<and> dbgif_go s then
       e\<lparr>t_done := False,
         t_log := t_log e @ [\<lparr>q_command = dbgif_command s, q_apndp = dbgif_apndp s,
                              q_rnw = dbgif_rnw s, q_addr32 = dbgif_addr32 s,
                              q_dwrite = dbgif_dwrite s\<rparr>]\<rparr>
     else if \<not> t_done e \<and> \<not> dbgif_go s then
       e\<lparr>t_done := True, t_res := resp (length (t_log e) - 1)\<rparr>
     else e)"

text \<open>The inputs of the core in a cycle, as the collaborators present them.\<close>

definition inputs_of :: "env \<Rightarrow> inputs" where
  "inputs_of e =
    \<lparr>streamOut_valid = (host e \<noteq> []),
     streamOut_payload = (case host e of [] \<Rightarrow> 0 | (b, f, l) # _ \<Rightarrow> b),
     streamOut_first = (case host e of [] \<Rightarrow> False | (b, f, l) # _ \<Rightarrow> f),
     streamOut_last = (case host e of [] \<Rightarrow> False | (b, f, l) # _ \<Rightarrow> l),
     streamIn_ready = True,
     isV2 = v2 e,
     dbgif_done = t_done e,
     dbgif_ack = r_ack (t_res e),
     dbgif_perr = r_perr (t_res e),
     dbgif_again = r_again (t_res e),
     dbgif_ignoreData = r_ignoreData (t_res e),
     dbgif_postedMode = r_postedMode (t_res e),
     dbgif_dread = r_dread (t_res e),
     dbgif_pinsout = r_pinsout (t_res e)\<rparr>"

text \<open>One cycle of the closed system: the host's byte is taken when the core is
  not busy, the byte in the output register is recorded when \<open>streamIn.valid\<close> is
  set, the debug interface reacts to \<open>go\<close>, and the core makes its step.\<close>

definition cycle :: "(nat \<Rightarrow> tresult) \<Rightarrow> env \<times> state \<Rightarrow> env \<times> state" where
  "cycle resp es =
    (let e = fst es; s = snd es;
         e1 = e\<lparr>host := (if host e \<noteq> [] \<and> \<not> busy s then tl (host e) else host e),
                 sent := (if streamIn_valid s
                          then sent e @ [(streamIn_payload s, streamIn_last s)] else sent e)\<rparr>
     in (transactor resp s e1, step (inputs_of e) s))"

fun cycles :: "nat \<Rightarrow> (nat \<Rightarrow> tresult) \<Rightarrow> env \<times> state \<Rightarrow> env \<times> state" where
  "cycles 0 resp es = es"
| "cycles (Suc n) resp es = cycles n resp (cycle resp es)"

text \<open>A packet as the host presents it: \<open>first\<close> on its first byte, \<open>last\<close> on
  its last.\<close>

fun packet_rest :: "byte list \<Rightarrow> (byte \<times> bool \<times> bool) list" where
  "packet_rest [] = []"
| "packet_rest [b] = [(b, False, True)]"
| "packet_rest (b # c # bs) = (b, False, False) # packet_rest (c # bs)"

fun packet :: "byte list \<Rightarrow> (byte \<times> bool \<times> bool) list" where
  "packet [] = []"
| "packet [b] = [(b, True, True)]"
| "packet (b # c # bs) = (b, True, False) # packet_rest (c # bs)"

text \<open>The result of a transaction that acknowledges OK and returns \<open>d\<close>, and the
  one that answers WAIT.\<close>

definition ok_result :: "32 word \<Rightarrow> tresult" where
  "ok_result d =
    \<lparr>r_ack = 1, r_perr = False, r_again = False, r_ignoreData = False,
     r_postedMode = False, r_dread = d, r_pinsout = 0\<rparr>"

definition wait_result :: tresult where
  "wait_result =
    \<lparr>r_ack = 2, r_perr = False, r_again = False, r_ignoreData = False,
     r_postedMode = False, r_dread = 0, r_pinsout = 0\<rparr>"

text \<open>The environment at the start of a packet: the debug interface idle, nothing
  sent yet.\<close>

definition env0 :: "bool \<Rightarrow> byte list \<Rightarrow> env" where
  "env0 v bs =
    \<lparr>host = packet bs, v2 = v, t_done = True, t_res = ok_result 0, t_log = [], sent = []\<rparr>"

text \<open>The controller at rest: reset, and the synchroniser has seen \<open>done\<close> high
  for two cycles.\<close>

definition rest :: state where
  "rest = reset\<lparr>done_cdc := 3\<rparr>"

text \<open>What the theorems assume of the controller when a packet starts: it is in
  \<open>IDLE\<close> and accepts input, its output register is empty, the two byte blocks
  have their declared sizes, and the debug interface is idle (no \<open>go\<close> pending,
  \<open>done\<close> seen high).\<close>

definition idle :: "state \<Rightarrow> bool" where
  "idle s =
    (fsm s = S_IDLE \<and> \<not> busy s \<and> \<not> streamIn_valid s \<and> \<not> dbgif_go s \<and> done_cdc s = 3
     \<and> length (rxBlock s) = 7 \<and> length (txBlock s) = 14 \<and> length (tfrram_mem s) = 127)"

text \<open>The registers that outlive a command: the connection flags, the transfer
  configuration, the match mask, and what the debug interface sees.\<close>

definition keeps :: "state \<Rightarrow> state \<Rightarrow> bool" where
  "keeps s s' =
    (running s' = running s \<and> connected s' = connected s
     \<and> waitRetry s' = waitRetry s \<and> matchRetry s' = matchRetry s \<and> mask_r s' = mask_r s
     \<and> dbgif_command s' = dbgif_command s \<and> dbgif_apndp s' = dbgif_apndp s
     \<and> dbgif_rnw s' = dbgif_rnw s \<and> dbgif_addr32 s' = dbgif_addr32 s
     \<and> dbgif_dwrite s' = dbgif_dwrite s \<and> dbgif_go s' = dbgif_go s
     \<and> dbgif_pinsin s' = dbgif_pinsin s \<and> dbgif_countdown s' = dbgif_countdown s
     \<and> tfrram_mem s' = tfrram_mem s)"

section \<open>Running the model\<close>

lemma rd_list_update: "rd (xs[i := v]) j = (if i = j \<and> j < length xs then v else rd xs j)"
  by (auto simp: rd_def)

lemma cycles_numeral: "cycles (numeral n) resp es = cycles (pred_numeral n) resp (cycle resp es)"
  by (simp add: numeral_eq_Suc)

lemma cycles_add: "cycles (m + n) resp es = cycles n resp (cycles m resp es)"
  by (induction m arbitrary: es) simp_all

lemmas sys_defs = cycle_def step_def common_def inputs_of_def env0_def transactor_def
  Let_def rd_list_update rx_strobe_def dbg_done_def dat_w_def

lemmas fsm_defs = st_IDLE_def st_RESPOND_def st_RxParams_def st_V1PACKETFILL_def dispatch_def
  RESP_Invalid_def

lemma unat_txedLen_Suc: "unat (x :: 9 word) < 63 \<Longrightarrow> unat (x + 1) = Suc (unat x)"
  by (simp add: unat_word_ariths)

text \<open>
  Padding under V1.  From \<open>V1PACKETFILL\<close> with \<open>txedLen = 63 - n\<close> the controller
  hands \<open>n + 1\<close> zero bytes to the sink, two cycles each, and is back in \<open>IDLE\<close>;
  the \<open>last\<close> marker of these bytes is whatever the register held before.
\<close>

lemma v1fill_run:
  assumes "fsm s = S_V1PACKETFILL" "\<not> streamIn_valid s" "unat (txedLen s) + n = 63"
    "host e = []" "\<not> dbgif_go s" "done_cdc s = 3" "t_done e"
  shows "fsm (snd (cycles (2 * n + 2) resp (e, s))) = S_IDLE
       \<and> \<not> streamIn_valid (snd (cycles (2 * n + 2) resp (e, s)))
       \<and> \<not> busy (snd (cycles (2 * n + 2) resp (e, s)))
       \<and> keeps s (snd (cycles (2 * n + 2) resp (e, s)))
       \<and> sent (fst (cycles (2 * n + 2) resp (e, s))) = sent e @ replicate (n + 1) (0, streamIn_last s)
       \<and> t_log (fst (cycles (2 * n + 2) resp (e, s))) = t_log e"
  using assms
proof (induction n arbitrary: s e)
  case 0
  then show ?case
    by (simp add: cycles_numeral sys_defs fsm_defs keeps_def)
next
  case (Suc n)
  define es' where "es' = cycle resp (cycle resp (e, s))"
  have st: "fsm (snd es') = S_V1PACKETFILL" "\<not> streamIn_valid (snd es')"
     "unat (txedLen (snd es')) + n = 63" "host (fst es') = []" "\<not> dbgif_go (snd es')"
     "keeps s (snd es')" "sent (fst es') = sent e @ [(0, streamIn_last s)]"
     "streamIn_last (snd es') = streamIn_last s" "t_log (fst es') = t_log e"
     "done_cdc (snd es') = 3" "t_done (fst es')"
    using Suc.prems
    by (simp_all add: es'_def sys_defs fsm_defs keeps_def unat_txedLen_Suc)
  have "cycles (2 * Suc n + 2) resp (e, s) = cycles (2 * n + 2) resp (fst es', snd es')"
    by (simp add: es'_def)
  moreover note Suc.IH [OF st(1-5) st(10-11)]
  ultimately show ?case using st(6-9)
    by (simp add: keeps_def del: cycles.simps)
qed

text \<open>The same, after a run of \<open>m\<close> cycles that has ended in \<open>V1PACKETFILL\<close>.\<close>

lemma v1fill_after:
  assumes "fsm (snd es) = S_V1PACKETFILL" "\<not> streamIn_valid (snd es)"
    "unat (txedLen (snd es)) + n = 63" "host (fst es) = []" "\<not> dbgif_go (snd es)"
    "done_cdc (snd es) = 3" "t_done (fst es)" "es = cycles m resp es0"
  shows "fsm (snd (cycles (m + (2 * n + 2)) resp es0)) = S_IDLE
       \<and> \<not> streamIn_valid (snd (cycles (m + (2 * n + 2)) resp es0))
       \<and> \<not> busy (snd (cycles (m + (2 * n + 2)) resp es0))
       \<and> keeps (snd es) (snd (cycles (m + (2 * n + 2)) resp es0))
       \<and> sent (fst (cycles (m + (2 * n + 2)) resp es0))
           = sent (fst es) @ replicate (n + 1) (0, streamIn_last (snd es))
       \<and> t_log (fst (cycles (m + (2 * n + 2)) resp es0)) = t_log (fst es)"
proof -
  have "cycles (m + (2 * n + 2)) resp es0 = cycles (2 * n + 2) resp (fst es, snd es)"
    by (simp only: cycles_add assms(8) prod.collapse)
  then show ?thesis
    unfolding \<open>cycles (m + (2 * n + 2)) resp es0 = cycles (2 * n + 2) resp (fst es, snd es)\<close>
    by (intro v1fill_run [OF assms(1-7)])
qed

section \<open>Responses of the Info command\<close>

text \<open>
  Claim C10.  A \<open>DAP_Info\<close> request whose info id is none of the ids that
  \<open>RESP_Info\<close> recognises is answered with the generic invalid response: one byte,
  the marker \<open>0xFF\<close>, not the command id \<open>0x00\<close>.  Under V2 framing the sink
  receives exactly this byte, carrying the end-of-packet marker, and the controller
  is back in \<open>IDLE\<close> after 6 cycles; under V1 framing the byte is followed by the 63
  zero bytes of the padding.
\<close>

theorem info_unknown_id_invalid:
  assumes "k \<notin> {0x01, 0x02, 0x03, 0x04, 0x05, 0x06, 0x07, 0x08, 0x09, 0xF0, 0xF1, 0xFD, 0xFE, 0xFF}"
      and "idle s"
  shows "sent (fst (cycles 6 resp (env0 True [DAP_Info, k], s))) = [(DAP_Invalid, True)]
       \<and> fsm (snd (cycles 6 resp (env0 True [DAP_Info, k], s))) = S_IDLE
       \<and> \<not> streamIn_valid (snd (cycles 6 resp (env0 True [DAP_Info, k], s)))
       \<and> sent (fst (cycles 132 resp (env0 False [DAP_Info, k], s)))
            = (DAP_Invalid, False) # replicate 63 (0, False)
       \<and> fsm (snd (cycles 132 resp (env0 False [DAP_Info, k], s))) = S_IDLE
       \<and> \<not> streamIn_valid (snd (cycles 132 resp (env0 False [DAP_Info, k], s)))"
proof -
  have v2: "sent (fst (cycles 6 resp (env0 True [DAP_Info, k], s))) = [(DAP_Invalid, True)]
       \<and> fsm (snd (cycles 6 resp (env0 True [DAP_Info, k], s))) = S_IDLE
       \<and> \<not> streamIn_valid (snd (cycles 6 resp (env0 True [DAP_Info, k], s)))"
    using assms by (simp add: idle_def cycles_numeral sys_defs fsm_defs RESP_Info_def)
  define es where "es = cycles 6 resp (env0 False [DAP_Info, k], s)"
  have st: "fsm (snd es) = S_V1PACKETFILL" "\<not> streamIn_valid (snd es)"
    "unat (txedLen (snd es)) + 62 = 63" "host (fst es) = []" "\<not> dbgif_go (snd es)"
    "done_cdc (snd es) = 3" "t_done (fst es)"
    and snt: "sent (fst es) = [(DAP_Invalid, False)]" "\<not> streamIn_last (snd es)"
    using assms by (simp_all add: es_def idle_def cycles_numeral sys_defs fsm_defs RESP_Info_def)
  have e132: "(132::nat) = 6 + (2 * 62 + 2)" and e63: "(62::nat) + 1 = 63"
    by simp_all
  have lst: "streamIn_last (snd es) = False"
    using snt(2) by simp
  have "sent (fst (cycles 132 resp (env0 False [DAP_Info, k], s)))
            = (DAP_Invalid, False) # replicate 63 (0, False)
       \<and> fsm (snd (cycles 132 resp (env0 False [DAP_Info, k], s))) = S_IDLE
       \<and> \<not> streamIn_valid (snd (cycles 132 resp (env0 False [DAP_Info, k], s)))"
    using v1fill_after [OF st es_def]
    unfolding e132 [symmetric] e63 snt(1) lst
    by (simp only: append_Cons append_Nil simp_thms)
  with v2 show ?thesis by blast
qed

theorem info_unknown_id_invalid_witness:
  "(0x0A :: byte) \<notin> {0x01, 0x02, 0x03, 0x04, 0x05, 0x06, 0x07, 0x08, 0x09, 0xF0, 0xF1, 0xFD, 0xFE, 0xFF}
   \<and> idle rest
   \<and> sent (fst (cycles 6 (\<lambda>k. ok_result 0) (env0 True [DAP_Info, 0x0A], rest))) = [(DAP_Invalid, True)]"
  using info_unknown_id_invalid [of "0x0A" rest "\<lambda>k. ok_result 0"]
  by (simp add: idle_def rest_def reset_def)

end
